theory Spec2Isabelle
  imports Main "HOL-Library.Word"
begin

section \<open>Outcome of a call\<close>

text \<open>
  A C call either returns, or it never comes back to its caller in the state it was issued
  in: the calling task is suspended inside \<^verbatim>\<open>sem_wait\<close> (or spins on a spinlock) until
  another agent releases the resource, or the program stops (a failed \<^verbatim>\<open>assert\<close>, a
  NULL dereference).
\<close>

datatype 'a outcome = Returns 'a | Suspends | Aborts

definition then_do :: "'a outcome \<Rightarrow> ('a \<Rightarrow> 'b outcome) \<Rightarrow> 'b outcome" where
  "then_do m f = (case m of Returns x \<Rightarrow> f x | Suspends \<Rightarrow> Suspends | Aborts \<Rightarrow> Aborts)"

section \<open>SHA engine arbitration (esp-mbedtls/port/sha/parallel_engine/sha.c)\<close>

subsection \<open>The operating system's semaphore\<close>

text \<open>
  \<^verbatim>\<open>sem_t\<close>, \<^verbatim>\<open>sem_init\<close>, \<^verbatim>\<open>sem_wait\<close> and \<^verbatim>\<open>sem_post\<close> are the POSIX counting semaphore of
  the host system (NuttX); sha.c only calls them. The initialisers of sha.c
  (\<^verbatim>\<open>{ .semcount = 1 }\<close>) name the counter field. \<^verbatim>\<open>sem_wait\<close> takes one unit and returns
  \<^verbatim>\<open>OK\<close> (0) when the count is positive, and suspends the calling task otherwise; it has no
  time-out argument. Its error return (\<^verbatim>\<open>ERROR\<close>, when a signal interrupts a task that is
  already waiting) is not modelled: a suspended call is the outcome \<open>Suspends\<close>.
\<close>

record sem_t =
  semcount :: int

definition OK :: int where
  "OK = 0"

definition ERROR :: int where
  "ERROR = - 1"

definition pdFALSE :: int where
  "pdFALSE = 0"

definition pdTRUE :: int where
  "pdTRUE = 1"

definition portMAX_DELAY :: "32 word" where
  "portMAX_DELAY = 0xffffffff"

definition sem_init :: "int \<Rightarrow> sem_t" where
  "sem_init v = \<lparr>semcount = v\<rparr>"

definition sem_wait :: "sem_t \<Rightarrow> (int \<times> sem_t) outcome" where
  "sem_wait sem =
     (if 0 < semcount sem then Returns (OK, sem\<lparr>semcount := semcount sem - 1\<rparr>)
      else Suspends)"

definition sem_post :: "sem_t \<Rightarrow> int \<times> sem_t" where
  "sem_post sem = (OK, sem\<lparr>semcount := semcount sem + 1\<rparr>)"

subsection \<open>State\<close>

text \<open>
  \<^verbatim>\<open>esp_sha_type\<close> is declared in hal/sha_types.h; sha.c names four enumerators, and its
  \<^verbatim>\<open>default:\<close> branches take every other value of the enum, here \<open>SHA_TYPE_MAX\<close>.
\<close>

datatype esp_sha_type = SHA1 | SHA2_256 | SHA2_384 | SHA2_512 | SHA_TYPE_MAX

text \<open>
  The calls sha.c makes into the SHA hardware abstraction layer and the spinlock of the
  host system, in the order they are made.
\<close>

datatype sha_call =
    Sha_hal_wait_idle
  | Spin_lock_irqsave
  | Sha_hal_hash_block esp_sha_type "8 word list" nat bool
  | Sha_hal_read_digest esp_sha_type
  | Spin_unlock_irqrestore
  | Periph_module_enable
  | Periph_module_disable

text \<open>
  The file's static variables, and what its collaborators keep: whether the SHA peripheral
  is clocked, whether interrupts are enabled, how many \<^verbatim>\<open>sem_t\<close> objects \<^verbatim>\<open>kmm_malloc\<close> can
  still hand out. A \<^verbatim>\<open>SemaphoreHandle_t\<close> is a pointer to a semaphore; the only semaphores
  the file allocates are the three stored in \<^verbatim>\<open>engine_states\<close>, so a handle is the index
  of its slot and \<open>None\<close> is the NULL pointer.
\<close>

record sha_state =
  engine_states :: "sem_t option list"
  engines_in_use :: "8 word"
  engines_in_use_lock :: sem_t
  memory_block_lock :: bool
  memory_block_lockirqstate :: bool
  irq_enabled :: bool
  sha_module_enabled :: bool
  kmm_free :: nat
  calls :: "sha_call list"

text \<open>The variables as the C start-up code leaves them (static storage, zero or as initialised).\<close>

definition sha_boot_state :: "nat \<Rightarrow> sha_state" where
  "sha_boot_state heap =
     \<lparr>engine_states = [None, None, None],
      engines_in_use = 0,
      engines_in_use_lock = \<lparr>semcount = 1\<rparr>,
      memory_block_lock = False,
      memory_block_lockirqstate = False,
      irq_enabled = True,
      sha_module_enabled = False,
      kmm_free = heap,
      calls = []\<rparr>"

subsection \<open>Collaborators\<close>

text \<open>
  Modelled from the spec: \<^verbatim>\<open>periph_module_enable\<close> and \<^verbatim>\<open>periph_module_disable\<close>
  (esp_private/periph_ctrl.h) are the spec's \<^verbatim>\<open>enableAcceleratorClock\<close> and
  \<^verbatim>\<open>disableAcceleratorClock\<close>, "simple register setters" of the power/clock domain.
\<close>

definition periph_module_enable :: "sha_state \<Rightarrow> sha_state" where
  "periph_module_enable s =
     s\<lparr>sha_module_enabled := True, calls := calls s @ [Periph_module_enable]\<rparr>"

definition periph_module_disable :: "sha_state \<Rightarrow> sha_state" where
  "periph_module_disable s =
     s\<lparr>sha_module_enabled := False, calls := calls s @ [Periph_module_disable]\<rparr>"

text \<open>
  \<^verbatim>\<open>spin_lock_irqsave\<close> returns the interrupt state and masks interrupts; on a lock
  that is held it spins until the holder lets go. \<^verbatim>\<open>spin_unlock_irqrestore\<close> frees the
  lock and restores the interrupt state it is given.
\<close>

definition spin_lock_irqsave :: "sha_state \<Rightarrow> (bool \<times> sha_state) outcome" where
  "spin_lock_irqsave s =
     (if memory_block_lock s then Suspends
      else Returns (irq_enabled s,
        s\<lparr>memory_block_lock := True, irq_enabled := False,
          calls := calls s @ [Spin_lock_irqsave]\<rparr>))"

definition spin_unlock_irqrestore :: "bool \<Rightarrow> sha_state \<Rightarrow> sha_state" where
  "spin_unlock_irqrestore flags s =
     s\<lparr>memory_block_lock := False, irq_enabled := flags,
       calls := calls s @ [Spin_unlock_irqrestore]\<rparr>"

definition sha_hal_wait_idle :: "sha_state \<Rightarrow> sha_state" where
  "sha_hal_wait_idle s = s\<lparr>calls := calls s @ [Sha_hal_wait_idle]\<rparr>"

definition sha_hal_hash_block ::
  "esp_sha_type \<Rightarrow> 8 word list \<Rightarrow> nat \<Rightarrow> bool \<Rightarrow> sha_state \<Rightarrow> sha_state" where
  "sha_hal_hash_block sha_type data_block block_word_len first_block s =
     s\<lparr>calls := calls s @ [Sha_hal_hash_block sha_type data_block block_word_len first_block]\<rparr>"

definition sha_hal_read_digest :: "esp_sha_type \<Rightarrow> sha_state \<Rightarrow> sha_state" where
  "sha_hal_read_digest sha_type s = s\<lparr>calls := calls s @ [Sha_hal_read_digest sha_type]\<rparr>"

subsection \<open>The port's FreeRTOS shims\<close>

text \<open>
  \<^verbatim>\<open>#define xSemaphoreTake(sem, t) sem_wait(sem)\<close>: the tick count is dropped, the value is
  \<^verbatim>\<open>sem_wait\<close>'s. \<^verbatim>\<open>#define xSemaphoreGive(sem) sem_post(sem)\<close>. A NULL handle is
  dereferenced by either.
\<close>

definition xSemaphoreTake :: "nat \<Rightarrow> 32 word \<Rightarrow> sha_state \<Rightarrow> (int \<times> sha_state) outcome" where
  "xSemaphoreTake sem t s =
     (case engine_states s ! sem of
        None \<Rightarrow> Aborts
      | Some x \<Rightarrow>
          then_do (sem_wait x)
            (\<lambda>(r, x'). Returns (r, s\<lparr>engine_states := (engine_states s)[sem := Some x']\<rparr>)))"

definition xSemaphoreGive :: "nat \<Rightarrow> sha_state \<Rightarrow> (int \<times> sha_state) outcome" where
  "xSemaphoreGive sem s =
     (case engine_states s ! sem of
        None \<Rightarrow> Aborts
      | Some x \<Rightarrow>
          (case sem_post x of
             (r, x') \<Rightarrow> Returns (r, s\<lparr>engine_states := (engine_states s)[sem := Some x']\<rparr>)))"

text \<open>
  \<^verbatim>\<open>#define portENTER_CRITICAL(lock) sem_wait(lock)\<close> and
  \<^verbatim>\<open>#define portEXIT_CRITICAL(lock) sem_post(lock)\<close>, used on \<^verbatim>\<open>engines_in_use_lock\<close> only.
\<close>

definition portENTER_CRITICAL :: "sha_state \<Rightarrow> sha_state outcome" where
  "portENTER_CRITICAL s =
     then_do (sem_wait (engines_in_use_lock s))
       (\<lambda>(r, x'). Returns (s\<lparr>engines_in_use_lock := x'\<rparr>))"

definition portEXIT_CRITICAL :: "sha_state \<Rightarrow> sha_state" where
  "portEXIT_CRITICAL s = s\<lparr>engines_in_use_lock := snd (sem_post (engines_in_use_lock s))\<rparr>"

text \<open>
  \<^verbatim>\<open>xSemaphoreCreateBinary\<close>: \<^verbatim>\<open>kmm_malloc\<close>, then \<^verbatim>\<open>sem_init(x, 0, 1)\<close>; NULL when the
  allocation fails. The new semaphore is returned by value and stored by the caller.
\<close>

definition xSemaphoreCreateBinary :: "sha_state \<Rightarrow> sem_t option \<times> sha_state" where
  "xSemaphoreCreateBinary s =
     (if 0 < kmm_free s then (Some (sem_init 1), s\<lparr>kmm_free := kmm_free s - 1\<rparr>)
      else (None, s))"

subsection \<open>The functions of sha.c\<close>

definition block_length :: "esp_sha_type \<Rightarrow> nat" where
  "block_length t =
     (case t of
        SHA1 \<Rightarrow> 64 div 4
      | SHA2_256 \<Rightarrow> 64 div 4
      | SHA2_384 \<Rightarrow> 128 div 4
      | SHA2_512 \<Rightarrow> 128 div 4
      | SHA_TYPE_MAX \<Rightarrow> 0)"

definition sha_engine_index :: "esp_sha_type \<Rightarrow> nat" where
  "sha_engine_index t =
     (case t of
        SHA1 \<Rightarrow> 0
      | SHA2_256 \<Rightarrow> 1
      | SHA2_384 \<Rightarrow> 2
      | SHA2_512 \<Rightarrow> 2
      | SHA_TYPE_MAX \<Rightarrow> 2)"

definition esp_sha_lock_memory_block :: "sha_state \<Rightarrow> sha_state outcome" where
  "esp_sha_lock_memory_block s =
     then_do (spin_lock_irqsave s)
       (\<lambda>(flags, s'). Returns (s'\<lparr>memory_block_lockirqstate := flags\<rparr>))"

definition esp_sha_unlock_memory_block :: "sha_state \<Rightarrow> sha_state" where
  "esp_sha_unlock_memory_block s = spin_unlock_irqrestore (memory_block_lockirqstate s) s"

text \<open>
  \<^verbatim>\<open>sha_get_engine_state\<close>: the slot's semaphore, created on first use. The new semaphore
  comes from \<^verbatim>\<open>xSemaphoreCreateBinary\<close> with count 1 and is then given once more
  ("start available"). With \<^verbatim>\<open>new_engine == NULL\<close> the \<^verbatim>\<open>assert\<close> stops a debug build
  and \<^verbatim>\<open>sem_post(NULL)\<close> a release build.
\<close>

definition sha_get_engine_state :: "esp_sha_type \<Rightarrow> sha_state \<Rightarrow> (nat \<times> sha_state) outcome" where
  "sha_get_engine_state sha_type s =
     (let idx = sha_engine_index sha_type in
      case engine_states s ! idx of
        Some result \<Rightarrow> Returns (idx, s)
      | None \<Rightarrow>
          (case xSemaphoreCreateBinary s of
             (None, s1) \<Rightarrow> Aborts
           | (Some new_engine, s1) \<Rightarrow>
               Returns (idx,
                 s1\<lparr>engine_states := (engine_states s1)[idx := Some (snd (sem_post new_engine))]\<rparr>)))"

text \<open>
  \<^verbatim>\<open>esp_sha_lock_engine_common\<close>. \<open>ndebug\<close> says whether the file is compiled with
  \<^verbatim>\<open>NDEBUG\<close>, which removes \<^verbatim>\<open>assert(engines_in_use <= 3)\<close>.
\<close>

definition esp_sha_lock_engine_common ::
  "bool \<Rightarrow> esp_sha_type \<Rightarrow> 32 word \<Rightarrow> sha_state \<Rightarrow> (bool \<times> sha_state) outcome" where
  "esp_sha_lock_engine_common ndebug sha_type ticks_to_wait s =
     then_do (sha_get_engine_state sha_type s) (\<lambda>(engine_state, s1).
     then_do (xSemaphoreTake engine_state ticks_to_wait s1) (\<lambda>(result, s2).
       if result = pdFALSE then Returns (False, s2)
       else
         then_do (portENTER_CRITICAL s2) (\<lambda>s3.
           let s4 = (if engines_in_use s3 = 0 then periph_module_enable s3 else s3);
               s5 = s4\<lparr>engines_in_use := engines_in_use s4 + 1\<rparr>
           in if \<not> ndebug \<and> 3 < engines_in_use s5 then Aborts
              else Returns (True, portEXIT_CRITICAL s5))))"

definition esp_sha_try_lock_engine ::
  "bool \<Rightarrow> esp_sha_type \<Rightarrow> sha_state \<Rightarrow> (bool \<times> sha_state) outcome" where
  "esp_sha_try_lock_engine ndebug sha_type s = esp_sha_lock_engine_common ndebug sha_type 0 s"

definition esp_sha_lock_engine :: "bool \<Rightarrow> esp_sha_type \<Rightarrow> sha_state \<Rightarrow> sha_state outcome" where
  "esp_sha_lock_engine ndebug sha_type s =
     then_do (esp_sha_lock_engine_common ndebug sha_type portMAX_DELAY s)
       (\<lambda>(r, s'). Returns s')"

definition esp_sha_unlock_engine :: "esp_sha_type \<Rightarrow> sha_state \<Rightarrow> sha_state outcome" where
  "esp_sha_unlock_engine sha_type s =
     then_do (sha_get_engine_state sha_type s) (\<lambda>(engine_state, s1).
     then_do (portENTER_CRITICAL s1) (\<lambda>s2.
       let s3 = s2\<lparr>engines_in_use := engines_in_use s2 - 1\<rparr>;
           s4 = (if engines_in_use s3 = 0 then periph_module_disable s3 else s3);
           s5 = portEXIT_CRITICAL s4
       in then_do (xSemaphoreGive engine_state s5) (\<lambda>(r, s6). Returns s6)))"

text \<open>
  \<^verbatim>\<open>esp_sha_read_digest_state\<close> and \<^verbatim>\<open>esp_sha_block\<close>. Without \<^verbatim>\<open>NDEBUG\<close> each starts
  with \<^verbatim>\<open>assert(uxSemaphoreGetCount(engine_state) == 0)\<close> on the slot's semaphore, looked
  up (and created when missing) by \<^verbatim>\<open>sha_get_engine_state\<close>. sha.c has no shim for
  \<^verbatim>\<open>uxSemaphoreGetCount\<close>; it is read as FreeRTOS documents it, the semaphore's count.
\<close>

definition uxSemaphoreGetCount :: "nat \<Rightarrow> sha_state \<Rightarrow> int outcome" where
  "uxSemaphoreGetCount sem s =
     (case engine_states s ! sem of None \<Rightarrow> Aborts | Some x \<Rightarrow> Returns (semcount x))"

definition esp_sha_read_digest_state :: "bool \<Rightarrow> esp_sha_type \<Rightarrow> sha_state \<Rightarrow> sha_state outcome" where
  "esp_sha_read_digest_state ndebug sha_type s =
     then_do
       (if ndebug then Returns s
        else
          then_do (sha_get_engine_state sha_type s) (\<lambda>(engine_state, s').
          then_do (uxSemaphoreGetCount engine_state s') (\<lambda>n.
            if n = 0 then Returns s' else Aborts)))
       (\<lambda>s0.
          let s1 = sha_hal_wait_idle s0 in
          then_do (esp_sha_lock_memory_block s1) (\<lambda>s2.
            let s3 = sha_hal_read_digest sha_type s2
            in Returns (esp_sha_unlock_memory_block s3)))"

definition esp_sha_block ::
  "bool \<Rightarrow> esp_sha_type \<Rightarrow> 8 word list \<Rightarrow> bool \<Rightarrow> sha_state \<Rightarrow> sha_state outcome" where
  "esp_sha_block ndebug sha_type data_block first_block s =
     then_do
       (if ndebug then Returns s
        else
          then_do (sha_get_engine_state sha_type s) (\<lambda>(engine_state, s').
          then_do (uxSemaphoreGetCount engine_state s') (\<lambda>n.
            if n = 0 then Returns s' else Aborts)))
       (\<lambda>s0.
          let s1 = sha_hal_wait_idle s0 in
          then_do (esp_sha_lock_memory_block s1) (\<lambda>s2.
            let s3 = sha_hal_hash_block sha_type data_block (block_length sha_type) first_block s2
            in Returns (esp_sha_unlock_memory_block s3)))"

text \<open>
  Sequences of calls of the three locking functions by the tasks of the system, each call
  run to its end before the next starts. A call that would suspend its task ends the
  sequence with \<open>Suspends\<close>.
\<close>

datatype engine_call = Lock esp_sha_type | Try_lock esp_sha_type | Unlock esp_sha_type

fun run_call :: "bool \<Rightarrow> engine_call \<Rightarrow> sha_state \<Rightarrow> sha_state outcome" where
  "run_call ndebug (Lock t) s = esp_sha_lock_engine ndebug t s"
| "run_call ndebug (Try_lock t) s =
     then_do (esp_sha_try_lock_engine ndebug t s) (\<lambda>(r, s'). Returns s')"
| "run_call ndebug (Unlock t) s = esp_sha_unlock_engine t s"

fun run_calls :: "bool \<Rightarrow> engine_call list \<Rightarrow> sha_state \<Rightarrow> sha_state outcome" where
  "run_calls ndebug [] s = Returns s"
| "run_calls ndebug (c # cs) s = then_do (run_call ndebug c s) (run_calls ndebug cs)"

section \<open>AES block cipher (esp-mbedtls/port/aes/block/esp_aes.c)\<close>

text \<open>
  \<^verbatim>\<open>esp_aes_context\<close> is declared in aes/esp_aes.h: the key length and the resident flag are
  bytes (\<^verbatim>\<open>uint8_t\<close>), the key is a buffer of 32 bytes.
\<close>

record esp_aes_context =
  key_bytes :: "8 word"
  key_in_hardware :: "8 word"
  key :: "8 word list"

text \<open>
  Constants of the headers: the error codes of mbedtls/aes.h and aes/esp_aes.h, the modes and
  directions of nuttx/crypto/crypto.h.
\<close>

definition MBEDTLS_ERR_AES_INVALID_KEY_LENGTH :: int where
  "MBEDTLS_ERR_AES_INVALID_KEY_LENGTH = - 0x0020"

definition ERR_ESP_AES_INVALID_INPUT_LENGTH :: int where
  "ERR_ESP_AES_INVALID_INPUT_LENGTH = - 0x0022"

datatype aes_mode = AES_MODE_ECB | AES_MODE_CBC

definition CYPHER_ENCRYPT :: int where
  "CYPHER_ENCRYPT = 1"

definition CYPHER_DECRYPT :: int where
  "CYPHER_DECRYPT = 0"

text \<open>
  What esp_aes.c calls and does not define, taken as parameters: \<^verbatim>\<open>valid_key_length\<close>
  (aes/esp_aes_internal.h) and the driver's \<^verbatim>\<open>aes_cypher(out, in, size, iv, key, keysize,
  mode, encrypt)\<close> (esp32_aes.h). The driver call reads the rest of the machine \<open>'g\<close>
  (locks, clock gates, counters, whatever it is) and may change it; it returns its status,
  what the output buffer and the iv buffer then hold, and the machine. A NULL iv is \<open>None\<close>.
\<close>

record 'g aes_port =
  valid_key_length :: "esp_aes_context \<Rightarrow> bool"
  aes_cypher ::
    "8 word list \<Rightarrow> 8 word list \<Rightarrow> 32 word \<Rightarrow> 8 word list option \<Rightarrow> 8 word list \<Rightarrow> 32 word \<Rightarrow>
     aes_mode \<Rightarrow> int \<Rightarrow> 'g \<Rightarrow> int \<times> 8 word list \<times> 8 word list \<times> 'g"

text \<open>Both bodies are comments only.\<close>

definition esp_aes_acquire_hardware :: "'g \<Rightarrow> 'g" where
  "esp_aes_acquire_hardware g = g"

definition esp_aes_release_hardware :: "'g \<Rightarrow> 'g" where
  "esp_aes_release_hardware g = g"

definition esp_internal_aes_encrypt ::
  "'g aes_port \<Rightarrow> esp_aes_context \<Rightarrow> 8 word list \<Rightarrow> 8 word list \<Rightarrow> 'g \<Rightarrow>
   int \<times> esp_aes_context \<times> 8 word list \<times> 'g" where
  "esp_internal_aes_encrypt port ctx input output g =
     (if \<not> valid_key_length port ctx then (MBEDTLS_ERR_AES_INVALID_KEY_LENGTH, ctx, output, g)
      else
        let g1 = esp_aes_acquire_hardware g;
            ctx1 = ctx\<lparr>key_in_hardware := 0\<rparr>;
            (r, output', iv', g2) =
              aes_cypher port output input 16 None (key ctx1) (ucast (key_bytes ctx1))
                AES_MODE_ECB CYPHER_ENCRYPT g1;
            ctx2 = (if r = 0 then ctx1\<lparr>key_in_hardware := key_bytes ctx1\<rparr> else ctx1);
            g3 = esp_aes_release_hardware g2
        in (r, ctx2, output', g3))"

definition esp_internal_aes_decrypt ::
  "'g aes_port \<Rightarrow> esp_aes_context \<Rightarrow> 8 word list \<Rightarrow> 8 word list \<Rightarrow> 'g \<Rightarrow>
   int \<times> esp_aes_context \<times> 8 word list \<times> 'g" where
  "esp_internal_aes_decrypt port ctx input output g =
     (if \<not> valid_key_length port ctx then (MBEDTLS_ERR_AES_INVALID_KEY_LENGTH, ctx, output, g)
      else
        let g1 = esp_aes_acquire_hardware g;
            ctx1 = ctx\<lparr>key_in_hardware := 0\<rparr>;
            (r, output', iv', g2) =
              aes_cypher port output input 16 None (key ctx1) (ucast (key_bytes ctx1))
                AES_MODE_ECB CYPHER_DECRYPT g1;
            ctx2 = (if r = 0 then ctx1\<lparr>key_in_hardware := 16\<rparr> else ctx1);
            g3 = esp_aes_release_hardware g2
        in (r, ctx2, output', g3))"

definition esp_aes_crypt_ecb ::
  "'g aes_port \<Rightarrow> esp_aes_context \<Rightarrow> int \<Rightarrow> 8 word list \<Rightarrow> 8 word list \<Rightarrow> 'g \<Rightarrow>
   int \<times> esp_aes_context \<times> 8 word list \<times> 'g" where
  "esp_aes_crypt_ecb port ctx mode input output g =
     (if \<not> valid_key_length port ctx then (MBEDTLS_ERR_AES_INVALID_KEY_LENGTH, ctx, output, g)
      else
        let g1 = esp_aes_acquire_hardware g;
            ctx1 = ctx\<lparr>key_in_hardware := 0\<rparr>;
            (r, output', iv', g2) =
              aes_cypher port output input 16 None (key ctx1) (ucast (key_bytes ctx1))
                AES_MODE_ECB CYPHER_DECRYPT g1;
            ctx2 = (if r = 0 then ctx1\<lparr>key_in_hardware := key_bytes ctx1\<rparr> else ctx1);
            g3 = esp_aes_release_hardware g2
        in (r, ctx2, output', g3))"

text \<open>
  \<^verbatim>\<open>esp_aes_crypt_cbc\<close>: \<open>len\<close> is the \<^verbatim>\<open>size_t length\<close>; the assignment
  \<^verbatim>\<open>ctx->key_in_hardware = length\<close> keeps its low byte.
\<close>

definition esp_aes_crypt_cbc ::
  "'g aes_port \<Rightarrow> esp_aes_context \<Rightarrow> int \<Rightarrow> 32 word \<Rightarrow> 8 word list \<Rightarrow> 8 word list \<Rightarrow>
   8 word list \<Rightarrow> 'g \<Rightarrow> int \<times> esp_aes_context \<times> 8 word list \<times> 8 word list \<times> 'g" where
  "esp_aes_crypt_cbc port ctx mode len iv input output g =
     (if len mod 16 \<noteq> 0 then (ERR_ESP_AES_INVALID_INPUT_LENGTH, ctx, iv, output, g)
      else if \<not> valid_key_length port ctx
      then (MBEDTLS_ERR_AES_INVALID_KEY_LENGTH, ctx, iv, output, g)
      else
        let g1 = esp_aes_acquire_hardware g;
            ctx1 = ctx\<lparr>key_in_hardware := 0\<rparr>;
            (ret, output', iv', g2) =
              aes_cypher port output input len (Some iv) (key ctx1) (ucast (key_bytes ctx1))
                AES_MODE_CBC mode g1;
            ctx2 = (if ret = 0 then ctx1\<lparr>key_in_hardware := ucast len\<rparr> else ctx1);
            g3 = esp_aes_release_hardware g2
        in (ret, ctx2, iv', output', g3))"

text \<open>\<^verbatim>\<open>esp_aes_encrypt\<close> and \<^verbatim>\<open>esp_aes_decrypt\<close> drop the status.\<close>

definition esp_aes_encrypt ::
  "'g aes_port \<Rightarrow> esp_aes_context \<Rightarrow> 8 word list \<Rightarrow> 8 word list \<Rightarrow> 'g \<Rightarrow>
   esp_aes_context \<times> 8 word list \<times> 'g" where
  "esp_aes_encrypt port ctx input output g = snd (esp_internal_aes_encrypt port ctx input output g)"

definition esp_aes_decrypt ::
  "'g aes_port \<Rightarrow> esp_aes_context \<Rightarrow> 8 word list \<Rightarrow> 8 word list \<Rightarrow> 'g \<Rightarrow>
   esp_aes_context \<times> 8 word list \<times> 'g" where
  "esp_aes_decrypt port ctx input output g = snd (esp_internal_aes_decrypt port ctx input output g)"

text \<open>
  One instance of the collaborators, to run the functions on concrete inputs: the key
  lengths of AES (16, 24 and 32 bytes) are valid, and the driver succeeds, writes the input
  to the output buffer, leaves the iv and counts its runs in the machine, a number.
\<close>

definition counting_port :: "nat aes_port" where
  "counting_port =
     \<lparr>valid_key_length = (\<lambda>ctx. key_bytes ctx = 16 \<or> key_bytes ctx = 24 \<or> key_bytes ctx = 32),
      aes_cypher = (\<lambda>out inp size iv k keysize mode encrypt g.
        (0, inp, (case iv of None \<Rightarrow> [] | Some v \<Rightarrow> v), Suc g))\<rparr>"

section \<open>Start-up of the two cores (components/esp_system/port/cpu_start.c)\<close>

text \<open>
  The configuration modelled: \<^verbatim>\<open>CONFIG_IDF_TARGET_ESP32\<close>, both cores
  (\<^verbatim>\<open>CONFIG_ESP_SYSTEM_SINGLE_CORE_MODE\<close> off, \<^verbatim>\<open>SOC_CPU_CORES_NUM\<close> 2),
  \<^verbatim>\<open>CONFIG_BOOTLOADER_WDT_ENABLE\<close> off, and the options for external RAM, the 8-bit IRAM
  region, trace memory, brown-out detection and a RAM-loaded ELF off.
\<close>

definition SOC_CPU_CORES_NUM :: nat where
  "SOC_CPU_CORES_NUM = 2"

text \<open>
  \<^verbatim>\<open>RESET_REASON\<close> (esp32/rom/rtc.h): the three values cpu_start.c names, and every other
  code.
\<close>

datatype RESET_REASON =
    DEEPSLEEP_RESET
  | TG0WDT_SYS_RESET
  | RTCWDT_SYS_RESET
  | OTHER_RESET nat

text \<open>The calls of \<^verbatim>\<open>call_start_cpu0\<close> and \<^verbatim>\<open>start_other_core\<close> into other components.\<close>

datatype boot_call =
    Bootloader_init_mem
  | Cpu_hal_set_vecbase
  | Wdt_hal_write_protect_disable
  | Wdt_hal_disable
  | Wdt_hal_write_protect_enable
  | Cache_Flush nat
  | Cache_Read_Enable nat
  | Esp_cpu_unstall nat
  | Appcpu_reset_pulse
  | Ets_set_appcpu_boot_addr
  | Esp_clk_init
  | Esp_perip_clk_init
  | Intr_matrix_clear
  | Rtc_gpio_force_hold_dis_all
  | Esp_cache_err_int_init
  | Bootloader_flash_update_id
  | Bootloader_flash_config
  | SYS_STARTUP_FN

text \<open>
  Memory and registers. \<open>bss\<close> is the words between \<^verbatim>\<open>_bss_start\<close> and \<^verbatim>\<open>_bss_end\<close>
  that hold other variables than the three flag variables of this file, which are
  zero-initialised statics of the same region and are kept as fields of their own;
  \<open>rtc_bss\<close> is the words between \<^verbatim>\<open>_rtc_bss_start\<close> and \<^verbatim>\<open>_rtc_bss_end\<close>.
  \<open>efuse_dis_app_cpu\<close> is the bit \<^verbatim>\<open>EFUSE_RD_CHIP_VER_DIS_APP_CPU\<close>, \<open>appcpu_clkgate_en\<close> and
  \<open>appcpu_runstall\<close> are the bits of the registers \<^verbatim>\<open>DPORT_APPCPU_CTRL_B_REG\<close> and
  \<^verbatim>\<open>DPORT_APPCPU_CTRL_C_REG\<close>. \<open>reset_reason\<close> is what \<^verbatim>\<open>rtc_get_reset_reason\<close> answers
  for a core, \<open>elapsed_us\<close> the time spent in \<^verbatim>\<open>cpu_hal_delay_us\<close>.
\<close>

record boot_state =
  bss :: "32 word list"
  rtc_bss :: "32 word list"
  s_cpu_up :: "bool list"
  s_cpu_inited :: "bool list"
  s_resume_cores :: bool
  efuse_dis_app_cpu :: bool
  appcpu_clkgate_en :: bool
  appcpu_runstall :: bool
  reset_reason :: "nat \<Rightarrow> RESET_REASON"
  elapsed_us :: nat
  boot_calls :: "boot_call list"

definition called :: "boot_call list \<Rightarrow> boot_state \<Rightarrow> boot_state" where
  "called cs s = s\<lparr>boot_calls := boot_calls s @ cs\<rparr>"

text \<open>
  The other core runs \<^verbatim>\<open>call_start_cpu1\<close>, which writes two of the shared flags, in this
  order: \<^verbatim>\<open>s_cpu_up[1] = true\<close>, then \<^verbatim>\<open>s_cpu_inited[1] = true\<close>. \<open>n\<close> is how many of the
  two writes it has done.
\<close>

definition call_start_cpu1_writes :: "nat \<Rightarrow> boot_state \<Rightarrow> boot_state" where
  "call_start_cpu1_writes n s =
     (let s1 = (if 1 \<le> n then s\<lparr>s_cpu_up := (s_cpu_up s)[1 := True]\<rparr> else s)
      in if 2 \<le> n then s1\<lparr>s_cpu_inited := (s_cpu_inited s1)[1 := True]\<rparr> else s1)"

text \<open>
  \<^verbatim>\<open>cpu_hal_delay_us\<close>: time passes, and the polling core then sees what the other core
  has written by that time. \<open>sched\<close> gives the progress of the other core at a time; a
  core whose clock is gated makes none.
\<close>

definition cpu_hal_delay_us :: "(nat \<Rightarrow> nat) \<Rightarrow> nat \<Rightarrow> boot_state \<Rightarrow> boot_state" where
  "cpu_hal_delay_us sched us s =
     (let s1 = s\<lparr>elapsed_us := elapsed_us s + us\<rparr>
      in if appcpu_clkgate_en s1 then call_start_cpu1_writes (sched (elapsed_us s1)) s1 else s1)"

text \<open>
  The inner \<^verbatim>\<open>for\<close> loop of both polling loops:
  \<^verbatim>\<open>flag = true; for (i = 0; i < SOC_CPU_CORES_NUM; i++) flag &= flags[i];\<close>
\<close>

definition all_cores :: "bool list \<Rightarrow> bool" where
  "all_cores flags = foldl (\<lambda>acc i. acc \<and> flags ! i) True [0..<SOC_CPU_CORES_NUM]"

text \<open>
  The polling loops \<^verbatim>\<open>while(!cpus_up) { ... cpu_hal_delay_us(100); }\<close>. Nothing bounds the
  number of passes in the C; here each pass takes one unit of \<open>fuel\<close>, and a loop that is
  still polling when the fuel is gone has no result.
\<close>

fun wait_cpus_up :: "(nat \<Rightarrow> nat) \<Rightarrow> nat \<Rightarrow> boot_state \<Rightarrow> boot_state option" where
  "wait_cpus_up sched 0 s = None"
| "wait_cpus_up sched (Suc fuel) s =
     (let cpus_up = all_cores (s_cpu_up s);
          s' = cpu_hal_delay_us sched 100 s
      in if cpus_up then Some s' else wait_cpus_up sched fuel s')"

fun wait_cpus_inited :: "(nat \<Rightarrow> nat) \<Rightarrow> nat \<Rightarrow> boot_state \<Rightarrow> boot_state option" where
  "wait_cpus_inited sched 0 s = None"
| "wait_cpus_inited sched (Suc fuel) s =
     (let cpus_inited = all_cores (s_cpu_inited s);
          s' = cpu_hal_delay_us sched 100 s
      in if cpus_inited then Some s' else wait_cpus_inited sched fuel s')"

definition start_other_core :: "(nat \<Rightarrow> nat) \<Rightarrow> nat \<Rightarrow> boot_state \<Rightarrow> boot_state option" where
  "start_other_core sched fuel s =
     (if \<not> efuse_dis_app_cpu s then
        let s1 = called [Cache_Flush 1, Cache_Read_Enable 1, Esp_cpu_unstall 1] s;
            s2 = (if \<not> appcpu_clkgate_en s1
                  then called [Appcpu_reset_pulse]
                         (s1\<lparr>appcpu_clkgate_en := True, appcpu_runstall := False\<rparr>)
                  else s1);
            s3 = called [Ets_set_appcpu_boot_addr] s2
        in wait_cpus_up sched fuel s3
      else
        Some (s\<lparr>s_cpu_inited := (s_cpu_inited s)[1 := True], appcpu_clkgate_en := False\<rparr>))"

text \<open>
  The two \<^verbatim>\<open>memset\<close> calls of \<^verbatim>\<open>call_start_cpu0\<close>. Clearing the bss region also clears
  the flag variables that live in it.
\<close>

definition clear_bss :: "boot_state \<Rightarrow> boot_state" where
  "clear_bss s =
     s\<lparr>bss := replicate (length (bss s)) 0,
       s_cpu_up := replicate SOC_CPU_CORES_NUM False,
       s_cpu_inited := replicate SOC_CPU_CORES_NUM False,
       s_resume_cores := False\<rparr>"

definition clear_rtc_bss :: "boot_state \<Rightarrow> boot_state" where
  "clear_rtc_bss s = s\<lparr>rtc_bss := replicate (length (rtc_bss s)) 0\<rparr>"

text \<open>
  \<^verbatim>\<open>call_start_cpu0\<close>, up to its last statement, the call of \<^verbatim>\<open>SYS_STARTUP_FN\<close>, which
  does not return.
\<close>

definition call_start_cpu0 :: "(nat \<Rightarrow> nat) \<Rightarrow> nat \<Rightarrow> boot_state \<Rightarrow> boot_state option" where
  "call_start_cpu0 sched fuel s =
     (let s1 = called [Bootloader_init_mem, Cpu_hal_set_vecbase] s;
          rst_reas = [reset_reason s1 0, reset_reason s1 1];
          s2 = (if rst_reas ! 0 = RTCWDT_SYS_RESET \<or> rst_reas ! 0 = TG0WDT_SYS_RESET
                   \<or> rst_reas ! 1 = RTCWDT_SYS_RESET \<or> rst_reas ! 1 = TG0WDT_SYS_RESET
                then called [Wdt_hal_write_protect_disable, Wdt_hal_disable,
                       Wdt_hal_write_protect_enable] s1
                else s1);
          s3 = clear_bss s2;
          s4 = (if rst_reas ! 0 \<noteq> DEEPSLEEP_RESET then clear_rtc_bss s3 else s3);
          s5 = s4\<lparr>s_cpu_up := (s_cpu_up s4)[0 := True]\<rparr>
      in case start_other_core sched fuel s5 of
           None \<Rightarrow> None
         | Some s6 \<Rightarrow>
             let s7 = called [Esp_clk_init, Esp_perip_clk_init, Intr_matrix_clear,
                        Rtc_gpio_force_hold_dis_all, Esp_cache_err_int_init,
                        Bootloader_flash_update_id, Bootloader_flash_config] s6;
                 s8 = s7\<lparr>s_cpu_inited := (s_cpu_inited s7)[0 := True]\<rparr>
             in (case wait_cpus_inited sched fuel s8 of
                   None \<Rightarrow> None
                 | Some s9 \<Rightarrow> Some (called [SYS_STARTUP_FN] s9)))"

text \<open>A chip as the boot loader hands it over, for running the start-up on concrete inputs.\<close>

definition chip :: "bool \<Rightarrow> RESET_REASON \<Rightarrow> boot_state" where
  "chip fused reason =
     \<lparr>bss = [1, 2, 3],
      rtc_bss = [7, 8],
      s_cpu_up = [True, True],
      s_cpu_inited = [False, True],
      s_resume_cores = True,
      efuse_dis_app_cpu = fused,
      appcpu_clkgate_en = False,
      appcpu_runstall = True,
      reset_reason = (\<lambda>cpu. reason),
      elapsed_us = 0,
      boot_calls = []\<rparr>"

section \<open>Properties of the SHA engine arbitration\<close>

lemmas sha_lock_defs =
  esp_sha_try_lock_engine_def esp_sha_lock_engine_common_def esp_sha_lock_engine_def
  esp_sha_unlock_engine_def sha_get_engine_state_def xSemaphoreCreateBinary_def
  xSemaphoreTake_def xSemaphoreGive_def portENTER_CRITICAL_def portEXIT_CRITICAL_def
  sem_wait_def sem_post_def sem_init_def then_do_def sha_engine_index_def sha_boot_state_def
  OK_def pdFALSE_def periph_module_enable_def periph_module_disable_def

text \<open>Every engine type has one of the three slots of \<^verbatim>\<open>engine_states\<close>.\<close>

lemma sha_engine_index_bound: "sha_engine_index t < 3"
  by (cases t) (simp_all add: sha_engine_index_def)

lemma then_do_Returns:
  "then_do m f = Returns y \<Longrightarrow> \<exists>x. m = Returns x \<and> f x = Returns y"
  by (cases m) (simp_all add: then_do_def)

text \<open>
  A \<^verbatim>\<open>sem_wait\<close> that returns has taken the semaphore, and its value \<^verbatim>\<open>OK\<close> is the number
  \<^verbatim>\<open>pdFALSE\<close>.
\<close>

lemma sem_wait_result: "sem_wait x = Returns (r, x') \<Longrightarrow> r = pdFALSE"
  by (auto simp: sem_wait_def OK_def pdFALSE_def split: if_splits)

lemma xSemaphoreTake_result:
  "xSemaphoreTake sem t s = Returns (r, s') \<Longrightarrow>
     r = pdFALSE \<and> engines_in_use s' = engines_in_use s
     \<and> sha_module_enabled s' = sha_module_enabled s
     \<and> calls s' = calls s \<and> engines_in_use_lock s' = engines_in_use_lock s"
  by (auto simp: xSemaphoreTake_def then_do_def dest: sem_wait_result
      split: option.splits outcome.splits)

lemma sha_get_engine_state_frame:
  "sha_get_engine_state t s = Returns (h, s') \<Longrightarrow>
     engines_in_use s' = engines_in_use s \<and> sha_module_enabled s' = sha_module_enabled s
     \<and> calls s' = calls s \<and> engines_in_use_lock s' = engines_in_use_lock s
     \<and> memory_block_lock s' = memory_block_lock s"
  by (auto simp: sha_get_engine_state_def xSemaphoreCreateBinary_def Let_def
      split: option.splits if_splits prod.splits)

text \<open>
  In every state, for every engine and both tick counts: a call of
  \<^verbatim>\<open>esp_sha_lock_engine_common\<close> that returns, returns \<^verbatim>\<open>false\<close> and has neither counted
  the engine nor touched the clock of the peripheral.
\<close>

lemma lock_common_never_counts:
  assumes "esp_sha_lock_engine_common ndebug t ticks s = Returns (r, s')"
  shows "\<not> r \<and> engines_in_use s' = engines_in_use s
    \<and> sha_module_enabled s' = sha_module_enabled s \<and> calls s' = calls s"
proof -
  from assms obtain h s1 res s2 where
    g: "sha_get_engine_state t s = Returns (h, s1)" and
    tk: "xSemaphoreTake h ticks s1 = Returns (res, s2)" and
    rest: "(if res = pdFALSE then Returns (False, s2)
       else
         then_do (portENTER_CRITICAL s2) (\<lambda>s3.
           let s4 = (if engines_in_use s3 = 0 then periph_module_enable s3 else s3);
               s5 = s4\<lparr>engines_in_use := engines_in_use s4 + 1\<rparr>
           in if \<not> ndebug \<and> 3 < engines_in_use s5 then Aborts
              else Returns (True, portEXIT_CRITICAL s5))) = Returns (r, s')"
    by (auto simp: esp_sha_lock_engine_common_def then_do_def split: outcome.splits prod.splits)
  from xSemaphoreTake_result [OF tk] have res: "res = pdFALSE"
    and f2: "engines_in_use s2 = engines_in_use s1"
      "sha_module_enabled s2 = sha_module_enabled s1" "calls s2 = calls s1"
    by auto
  from rest res have "r = False" "s' = s2" by auto
  with f2 sha_get_engine_state_frame [OF g] show ?thesis by simp
qed

text \<open>
  Claim C1 says that \<^verbatim>\<open>esp_sha_try_lock_engine\<close> returns true when the engine's token is
  available, returns false without suspending when it is not, and that of four acquires on
  a family of three the first three succeed. The code does otherwise, in three runs from
  the start-up state: the first call for SHA1 finds the token available, takes it (the
  count of the new semaphore goes from 2 to 1) and returns false; after the two units of
  the SHA1 semaphore are taken, a further call suspends in \<^verbatim>\<open>sem_wait\<close>; and the acquires
  of the three engines one after the other all return false.
\<close>

theorem try_lock_engine_first_calls:
  "esp_sha_try_lock_engine ndebug SHA1 (sha_boot_state 3) =
     Returns (False, (sha_boot_state 2)\<lparr>engine_states := [Some \<lparr>semcount = 1\<rparr>, None, None]\<rparr>)
   \<and> then_do (run_calls ndebug [Try_lock SHA1, Try_lock SHA1] (sha_boot_state 3))
        (esp_sha_try_lock_engine ndebug SHA1) = Suspends
   \<and> then_do (esp_sha_try_lock_engine ndebug SHA1 (sha_boot_state 3)) (\<lambda>(r1, s1).
       then_do (esp_sha_try_lock_engine ndebug SHA2_256 s1) (\<lambda>(r2, s2).
       then_do (esp_sha_try_lock_engine ndebug SHA2_512 s2) (\<lambda>(r3, s3).
         Returns [r1, r2, r3])))
      = Returns [False, False, False]"
  by (simp add: sha_lock_defs)

text \<open>
  Claim C2 says that an acquire which takes the token increments \<^verbatim>\<open>engines_in_use\<close> and
  enables the SHA clock on the step from 0 to 1, and that \<^verbatim>\<open>esp_sha_lock_engine\<close> always
  returns with the increment done. The code does otherwise: the first
  \<^verbatim>\<open>esp_sha_lock_engine(SHA1)\<close> after start-up returns with the token taken, the counter
  still 0, the peripheral not enabled and \<^verbatim>\<open>periph_module_enable\<close> not called.
\<close>

theorem lock_engine_leaves_counter:
  "(case esp_sha_lock_engine ndebug SHA1 (sha_boot_state 3) of
      Returns s' \<Rightarrow>
        engine_states s' = [Some \<lparr>semcount = 1\<rparr>, None, None]
        \<and> engines_in_use s' = 0 \<and> \<not> sha_module_enabled s' \<and> calls s' = []
    | Suspends \<Rightarrow> False
    | Aborts \<Rightarrow> False)"
  by (simp add: sha_lock_defs)

text \<open>The counter is a byte: one below 0 is 255, which is above 3.\<close>

lemma u8_below_zero: "(- 1 :: 8 word) = 255"
  by simp

lemma u8_below_zero_above_three: "\<not> (- 1 :: 8 word) \<le> 3"
  unfolding u8_below_zero by simp

text \<open>
  Claim C3 says that in every reachable state \<^verbatim>\<open>engines_in_use\<close> is the number of acquired
  engines, lies between 0 and 3, and is positive exactly when the SHA clock is enabled.
  The code does otherwise: after \<^verbatim>\<open>esp_sha_lock_engine(SHA1)\<close> and
  \<^verbatim>\<open>esp_sha_unlock_engine(SHA1)\<close> from the start-up state, no engine is held (the semaphore
  is back at its first count), the counter is 255 and the peripheral is not enabled.
\<close>

theorem lock_unlock_wraps_counter:
  "(case run_calls ndebug [Lock SHA1, Unlock SHA1] (sha_boot_state 3) of
      Returns s' \<Rightarrow>
        engine_states s' = [Some \<lparr>semcount = 2\<rparr>, None, None]
        \<and> engines_in_use s' = 255 \<and> \<not> engines_in_use s' \<le> 3
        \<and> \<not> sha_module_enabled s' \<and> calls s' = []
    | Suspends \<Rightarrow> False
    | Aborts \<Rightarrow> False)"
  by (simp add: sha_lock_defs u8_below_zero_above_three)

lemma debug_check_frame:
  assumes "(if ndebug then Returns s
        else
          then_do (sha_get_engine_state sha_type s) (\<lambda>(engine_state, s').
          then_do (uxSemaphoreGetCount engine_state s') (\<lambda>n.
            if n = 0 then Returns s' else Aborts))) = Returns s0"
  shows "calls s0 = calls s \<and> memory_block_lock s0 = memory_block_lock s"
proof (cases ndebug)
  case True
  with assms show ?thesis by simp
next
  case False
  with assms obtain h s1 where "sha_get_engine_state sha_type s = Returns (h, s1)" and "s0 = s1"
    by (auto simp: then_do_def split: outcome.splits if_splits)
  then show ?thesis by (simp add: sha_get_engine_state_frame)
qed

lemma window_section_calls:
  assumes "then_do (esp_sha_lock_memory_block (sha_hal_wait_idle s0))
             (\<lambda>s2. Returns (esp_sha_unlock_memory_block (hal s2))) = Returns s'"
    and "\<And>x. memory_block_lockirqstate (hal x) = memory_block_lockirqstate x"
    and "\<And>x. calls (hal x) = calls x @ [c]"
  shows "\<not> memory_block_lock s0
     \<and> calls s' = calls s0 @ [Sha_hal_wait_idle, Spin_lock_irqsave, c, Spin_unlock_irqrestore]
     \<and> \<not> memory_block_lock s'"
  using assms
  by (auto simp: then_do_def esp_sha_lock_memory_block_def esp_sha_unlock_memory_block_def
      spin_lock_irqsave_def spin_unlock_irqrestore_def sha_hal_wait_idle_def split: if_splits)

text \<open>
  Claim C10: every call of \<^verbatim>\<open>esp_sha_block\<close> and of \<^verbatim>\<open>esp_sha_read_digest_state\<close> that
  runs to its end has made exactly these calls, in this order: \<^verbatim>\<open>sha_hal_wait_idle\<close>, the
  taking of the register-window lock, one \<^verbatim>\<open>sha_hal_hash_block\<close> (one
  \<^verbatim>\<open>sha_hal_read_digest\<close>), the release of the lock. The lock is free when the call starts,
  so it is free during the idle wait, which comes first; and it is free again at the end.
\<close>

theorem sha_window_lock_order:
  "(esp_sha_block ndebug t d f s = Returns s' \<longrightarrow>
      \<not> memory_block_lock s
      \<and> calls s' = calls s @ [Sha_hal_wait_idle, Spin_lock_irqsave,
                              Sha_hal_hash_block t d (block_length t) f, Spin_unlock_irqrestore]
      \<and> \<not> memory_block_lock s')
   \<and> (esp_sha_read_digest_state ndebug t s = Returns s'' \<longrightarrow>
      \<not> memory_block_lock s
      \<and> calls s'' = calls s @ [Sha_hal_wait_idle, Spin_lock_irqsave,
                              Sha_hal_read_digest t, Spin_unlock_irqrestore]
      \<and> \<not> memory_block_lock s'')"
proof (intro conjI impI)
  assume "esp_sha_block ndebug t d f s = Returns s'"
  then obtain s0 where
    chk: "(if ndebug then Returns s
        else
          then_do (sha_get_engine_state t s) (\<lambda>(engine_state, s').
          then_do (uxSemaphoreGetCount engine_state s') (\<lambda>n.
            if n = 0 then Returns s' else Aborts))) = Returns s0" and
    run: "then_do (esp_sha_lock_memory_block (sha_hal_wait_idle s0))
            (\<lambda>s2. Returns (esp_sha_unlock_memory_block
               (sha_hal_hash_block t d (block_length t) f s2))) = Returns s'"
    unfolding esp_sha_block_def Let_def by (blast dest: then_do_Returns)
  have w: "\<not> memory_block_lock s0
     \<and> calls s' = calls s0 @ [Sha_hal_wait_idle, Spin_lock_irqsave,
          Sha_hal_hash_block t d (block_length t) f, Spin_unlock_irqrestore]
     \<and> \<not> memory_block_lock s'"
    by (rule window_section_calls [OF run]) (simp_all add: sha_hal_hash_block_def)
  with debug_check_frame [OF chk]
  show "\<not> memory_block_lock s"
    and "calls s' = calls s @ [Sha_hal_wait_idle, Spin_lock_irqsave,
          Sha_hal_hash_block t d (block_length t) f, Spin_unlock_irqrestore]"
    and "\<not> memory_block_lock s'"
    by simp_all
next
  assume "esp_sha_read_digest_state ndebug t s = Returns s''"
  then obtain s0 where
    chk: "(if ndebug then Returns s
        else
          then_do (sha_get_engine_state t s) (\<lambda>(engine_state, s').
          then_do (uxSemaphoreGetCount engine_state s') (\<lambda>n.
            if n = 0 then Returns s' else Aborts))) = Returns s0" and
    run: "then_do (esp_sha_lock_memory_block (sha_hal_wait_idle s0))
            (\<lambda>s2. Returns (esp_sha_unlock_memory_block (sha_hal_read_digest t s2))) = Returns s''"
    unfolding esp_sha_read_digest_state_def Let_def by (blast dest: then_do_Returns)
  have w: "\<not> memory_block_lock s0
     \<and> calls s'' = calls s0 @ [Sha_hal_wait_idle, Spin_lock_irqsave,
          Sha_hal_read_digest t, Spin_unlock_irqrestore]
     \<and> \<not> memory_block_lock s''"
    by (rule window_section_calls [OF run]) (simp_all add: sha_hal_read_digest_def)
  with debug_check_frame [OF chk]
  show "\<not> memory_block_lock s"
    and "calls s'' = calls s @ [Sha_hal_wait_idle, Spin_lock_irqsave,
          Sha_hal_read_digest t, Spin_unlock_irqrestore]"
    and "\<not> memory_block_lock s''"
    by simp_all
qed

theorem sha_window_lock_order_witness:
  "esp_sha_block True SHA2_256 [1, 2] True (sha_boot_state 3) =
     Returns ((sha_boot_state 3)\<lparr>calls := [Sha_hal_wait_idle, Spin_lock_irqsave,
        Sha_hal_hash_block SHA2_256 [1, 2] 16 True, Spin_unlock_irqrestore],
        memory_block_lockirqstate := True\<rparr>)
   \<and> esp_sha_read_digest_state True SHA2_256 (sha_boot_state 3) =
     Returns ((sha_boot_state 3)\<lparr>calls := [Sha_hal_wait_idle, Spin_lock_irqsave,
        Sha_hal_read_digest SHA2_256, Spin_unlock_irqrestore],
        memory_block_lockirqstate := True\<rparr>)
   \<and> \<not> memory_block_lock (sha_boot_state 3)
   \<and> calls ((sha_boot_state 3)\<lparr>calls := [Sha_hal_wait_idle, Spin_lock_irqsave,
        Sha_hal_hash_block SHA2_256 [1, 2] 16 True, Spin_unlock_irqrestore],
        memory_block_lockirqstate := True\<rparr>) =
      calls (sha_boot_state 3) @ [Sha_hal_wait_idle, Spin_lock_irqsave,
        Sha_hal_hash_block SHA2_256 [1, 2] (block_length SHA2_256) True, Spin_unlock_irqrestore]
   \<and> calls ((sha_boot_state 3)\<lparr>calls := [Sha_hal_wait_idle, Spin_lock_irqsave,
        Sha_hal_read_digest SHA2_256, Spin_unlock_irqrestore],
        memory_block_lockirqstate := True\<rparr>) =
      calls (sha_boot_state 3) @ [Sha_hal_wait_idle, Spin_lock_irqsave,
        Sha_hal_read_digest SHA2_256, Spin_unlock_irqrestore]"
proof -
  have b: "esp_sha_block True SHA2_256 [1, 2] True (sha_boot_state 3) =
     Returns ((sha_boot_state 3)\<lparr>calls := [Sha_hal_wait_idle, Spin_lock_irqsave,
        Sha_hal_hash_block SHA2_256 [1, 2] 16 True, Spin_unlock_irqrestore],
        memory_block_lockirqstate := True\<rparr>)"
    by (simp add: esp_sha_block_def esp_sha_lock_memory_block_def
        esp_sha_unlock_memory_block_def spin_lock_irqsave_def spin_unlock_irqrestore_def
        sha_hal_wait_idle_def sha_hal_hash_block_def then_do_def sha_boot_state_def
        block_length_def)
  have r: "esp_sha_read_digest_state True SHA2_256 (sha_boot_state 3) =
     Returns ((sha_boot_state 3)\<lparr>calls := [Sha_hal_wait_idle, Spin_lock_irqsave,
        Sha_hal_read_digest SHA2_256, Spin_unlock_irqrestore],
        memory_block_lockirqstate := True\<rparr>)"
    by (simp add: esp_sha_read_digest_state_def esp_sha_lock_memory_block_def
        esp_sha_unlock_memory_block_def spin_lock_irqsave_def spin_unlock_irqrestore_def
        sha_hal_wait_idle_def sha_hal_read_digest_def then_do_def sha_boot_state_def)
  note order = sha_window_lock_order [of True SHA2_256 "[1, 2]" True "sha_boot_state 3"]
  from order b r show ?thesis by blast
qed

text \<open>
  With \<^verbatim>\<open>NDEBUG\<close> and the register-window lock free, both functions do run to their end.
\<close>

lemma sha_window_section_returns:
  assumes "ndebug" and "\<not> memory_block_lock s"
  shows "\<exists>s'. esp_sha_block ndebug t d f s = Returns s'"
    and "\<exists>s'. esp_sha_read_digest_state ndebug t s = Returns s'"
  using assms
  by (simp_all add: esp_sha_block_def esp_sha_read_digest_state_def then_do_def
      esp_sha_lock_memory_block_def spin_lock_irqsave_def sha_hal_wait_idle_def)

section \<open>Properties of the AES block cipher\<close>

text \<open>
  Claim C4: \<^verbatim>\<open>esp_aes_acquire_hardware\<close> and \<^verbatim>\<open>esp_aes_release_hardware\<close> return every
  state as they found it, whatever the state holds: no lock is taken or released, no clock
  enabled or disabled.
\<close>

theorem esp_aes_acquire_release_identity:
  "esp_aes_acquire_hardware g = g \<and> esp_aes_release_hardware g = g"
  by (simp add: esp_aes_acquire_hardware_def esp_aes_release_hardware_def)

text \<open>
  Claim C5: \<^verbatim>\<open>esp_aes_crypt_ecb\<close> does not read its \<^verbatim>\<open>mode\<close> argument, so any two modes give
  the same result; it runs the driver in the decrypt direction, so for every driver its
  status, output and machine state are those of \<^verbatim>\<open>esp_internal_aes_decrypt\<close>, and so is the
  context once the resident flag is set aside.
\<close>

theorem esp_aes_crypt_ecb_ignores_mode:
  "esp_aes_crypt_ecb port ctx mode1 input output g = esp_aes_crypt_ecb port ctx mode2 input output g
   \<and> (case (esp_aes_crypt_ecb port ctx mode1 input output g,
            esp_internal_aes_decrypt port ctx input output g) of
        ((r, ctx', output', g'), (r2, ctx2, output2, g2)) \<Rightarrow>
          r = r2 \<and> output' = output2 \<and> g' = g2
          \<and> ctx'\<lparr>key_in_hardware := k\<rparr> = ctx2\<lparr>key_in_hardware := k\<rparr>)"
proof
  show "esp_aes_crypt_ecb port ctx mode1 input output g =
        esp_aes_crypt_ecb port ctx mode2 input output g"
    by (simp add: esp_aes_crypt_ecb_def)
next
  show "case (esp_aes_crypt_ecb port ctx mode1 input output g,
            esp_internal_aes_decrypt port ctx input output g) of
        ((r, ctx', output', g'), (r2, ctx2, output2, g2)) \<Rightarrow>
          r = r2 \<and> output' = output2 \<and> g' = g2
          \<and> ctx'\<lparr>key_in_hardware := k\<rparr> = ctx2\<lparr>key_in_hardware := k\<rparr>"
  proof (cases "valid_key_length port ctx")
    case False
    then show ?thesis
      by (simp add: esp_aes_crypt_ecb_def esp_internal_aes_decrypt_def)
  next
    case True
    then show ?thesis
      by (simp add: esp_aes_crypt_ecb_def esp_internal_aes_decrypt_def Let_def
          split: prod.splits)
  qed
qed

text \<open>
  Claim C6: \<^verbatim>\<open>esp_aes_crypt_cbc\<close> with a length that is no multiple of 16 returns the
  invalid-input-length error and hands back the context, the buffers and the machine state
  (with every counter in it) as they were, whatever the key length is and whatever the
  driver would do. With an unsupported key length each of the four operations returns with
  nothing changed; the status is the invalid-key-length error, for \<^verbatim>\<open>esp_aes_crypt_cbc\<close>
  when the length passed the earlier check.
\<close>

theorem esp_aes_early_errors:
  "(len mod 16 \<noteq> 0 \<longrightarrow>
      esp_aes_crypt_cbc port ctx mode len iv input output g =
        (ERR_ESP_AES_INVALID_INPUT_LENGTH, ctx, iv, output, g))
   \<and> (\<not> valid_key_length port ctx \<longrightarrow>
        esp_internal_aes_encrypt port ctx input output g =
          (MBEDTLS_ERR_AES_INVALID_KEY_LENGTH, ctx, output, g)
        \<and> esp_internal_aes_decrypt port ctx input output g =
          (MBEDTLS_ERR_AES_INVALID_KEY_LENGTH, ctx, output, g)
        \<and> esp_aes_crypt_ecb port ctx mode input output g =
          (MBEDTLS_ERR_AES_INVALID_KEY_LENGTH, ctx, output, g)
        \<and> snd (esp_aes_crypt_cbc port ctx mode len iv input output g) = (ctx, iv, output, g)
        \<and> (len mod 16 = 0 \<longrightarrow>
             esp_aes_crypt_cbc port ctx mode len iv input output g =
               (MBEDTLS_ERR_AES_INVALID_KEY_LENGTH, ctx, iv, output, g)))"
  by (simp add: esp_aes_crypt_cbc_def esp_internal_aes_encrypt_def esp_internal_aes_decrypt_def
      esp_aes_crypt_ecb_def)

theorem esp_aes_early_errors_witness:
  "(17 :: 32 word) mod 16 \<noteq> 0
   \<and> esp_aes_crypt_cbc counting_port \<lparr>key_bytes = 16, key_in_hardware = 16, key = []\<rparr>
        1 17 [] [] [] 5 =
        (ERR_ESP_AES_INVALID_INPUT_LENGTH,
         \<lparr>key_bytes = 16, key_in_hardware = 16, key = []\<rparr>, [], [], 5)
   \<and> \<not> valid_key_length counting_port \<lparr>key_bytes = 20, key_in_hardware = 16, key = []\<rparr>
   \<and> (32 :: 32 word) mod 16 = 0
   \<and> esp_aes_crypt_cbc counting_port \<lparr>key_bytes = 20, key_in_hardware = 16, key = []\<rparr>
        1 32 [] [] [] 5 =
        (MBEDTLS_ERR_AES_INVALID_KEY_LENGTH,
         \<lparr>key_bytes = 20, key_in_hardware = 16, key = []\<rparr>, [], [], 5)
   \<and> esp_internal_aes_encrypt counting_port \<lparr>key_bytes = 20, key_in_hardware = 16, key = []\<rparr>
        [] [] 5 =
        (MBEDTLS_ERR_AES_INVALID_KEY_LENGTH,
         \<lparr>key_bytes = 20, key_in_hardware = 16, key = []\<rparr>, [], 5)"
proof -
  have odd: "(17 :: 32 word) mod 16 \<noteq> 0"
    by simp
  have even: "(32 :: 32 word) mod 16 = 0"
    by simp
  have bad_key: "\<not> valid_key_length counting_port
      \<lparr>key_bytes = 20, key_in_hardware = 16, key = []\<rparr>"
    by (simp add: counting_port_def)
  from odd
    esp_aes_early_errors [of 17 counting_port
      "\<lparr>key_bytes = 16, key_in_hardware = 16, key = []\<rparr>" 1 "[]" "[]" "[]" 5]
  have a: "esp_aes_crypt_cbc counting_port \<lparr>key_bytes = 16, key_in_hardware = 16, key = []\<rparr>
        1 17 [] [] [] 5 =
        (ERR_ESP_AES_INVALID_INPUT_LENGTH,
         \<lparr>key_bytes = 16, key_in_hardware = 16, key = []\<rparr>, [], [], 5)"
    by blast
  note keyed =
    esp_aes_early_errors [of 32 counting_port
      "\<lparr>key_bytes = 20, key_in_hardware = 16, key = []\<rparr>" 1 "[]" "[]" "[]" 5]
  from even bad_key keyed
  have b: "esp_aes_crypt_cbc counting_port \<lparr>key_bytes = 20, key_in_hardware = 16, key = []\<rparr>
        1 32 [] [] [] 5 =
        (MBEDTLS_ERR_AES_INVALID_KEY_LENGTH,
         \<lparr>key_bytes = 20, key_in_hardware = 16, key = []\<rparr>, [], [], 5)"
    by simp
  from bad_key keyed
  have c: "esp_internal_aes_encrypt counting_port
        \<lparr>key_bytes = 20, key_in_hardware = 16, key = []\<rparr> [] [] 5 =
        (MBEDTLS_ERR_AES_INVALID_KEY_LENGTH,
         \<lparr>key_bytes = 20, key_in_hardware = 16, key = []\<rparr>, [], 5)"
    by simp
  from odd even bad_key a b c show ?thesis
    by blast
qed

text \<open>
  Where the resident flag does end at the key length: \<^verbatim>\<open>esp_internal_aes_encrypt\<close> and
  \<^verbatim>\<open>esp_aes_crypt_ecb\<close>, after a run with status 0; after any other status it is 0.
\<close>

lemma key_in_hardware_encrypt_ecb:
  assumes "valid_key_length port ctx"
  shows "(case esp_internal_aes_encrypt port ctx input output g of
            (r, ctx', rest) \<Rightarrow> key_in_hardware ctx' = (if r = 0 then key_bytes ctx else 0))"
    and "(case esp_aes_crypt_ecb port ctx mode input output g of
            (r, ctx', rest) \<Rightarrow> key_in_hardware ctx' = (if r = 0 then key_bytes ctx else 0))"
  using assms
  by (simp_all add: esp_internal_aes_encrypt_def esp_aes_crypt_ecb_def Let_def split: prod.splits)

text \<open>
  Claim C7 says that after a successful run the resident flag \<^verbatim>\<open>key_in_hardware\<close> is the
  key length \<^verbatim>\<open>key_bytes\<close>. The code does otherwise in two of the four operations:
  \<^verbatim>\<open>esp_internal_aes_decrypt\<close> with a 32-byte key leaves the flag at 16, and
  \<^verbatim>\<open>esp_aes_crypt_cbc\<close> with a 16-byte key and 32 bytes of input leaves it at 32, the
  input length.
\<close>

theorem key_in_hardware_after_decrypt_and_cbc:
  "esp_internal_aes_decrypt counting_port
     \<lparr>key_bytes = 32, key_in_hardware = 0, key = replicate 32 0\<rparr>
     (replicate 16 1) (replicate 16 0) 0
   = (0, \<lparr>key_bytes = 32, key_in_hardware = 16, key = replicate 32 0\<rparr>, replicate 16 1, 1)
  \<and> esp_aes_crypt_cbc counting_port
     \<lparr>key_bytes = 16, key_in_hardware = 0, key = replicate 16 0\<rparr>
     CYPHER_ENCRYPT 32 (replicate 16 2) (replicate 32 1) (replicate 32 0) 0
   = (0, \<lparr>key_bytes = 16, key_in_hardware = 32, key = replicate 16 0\<rparr>,
      replicate 16 2, replicate 32 1, 1)"
  by (simp add: esp_internal_aes_decrypt_def esp_aes_crypt_cbc_def counting_port_def
      esp_aes_acquire_hardware_def esp_aes_release_hardware_def)

section \<open>Properties of the start-up\<close>

lemma all_cores_two: "all_cores flags = (flags ! 0 \<and> flags ! 1)"
  by (simp add: all_cores_def SOC_CPU_CORES_NUM_def numeral_2_eq_2)

lemma replicate_cores: "replicate SOC_CPU_CORES_NUM False = [False, False]"
  by (simp add: SOC_CPU_CORES_NUM_def numeral_2_eq_2)

lemmas boot_defs =
  call_start_cpu0_def start_other_core_def called_def clear_bss_def clear_rtc_bss_def
  cpu_hal_delay_us_def replicate_cores all_cores_two

text \<open>
  Claim C8: with the efuse bit that disables the second core set, \<^verbatim>\<open>start_other_core\<close>
  sets \<^verbatim>\<open>s_cpu_inited[1]\<close>, gates the clock of the second core and returns without a pass
  of its polling loop (it needs no fuel and no time passes). \<^verbatim>\<open>call_start_cpu0\<close> then
  reaches \<^verbatim>\<open>SYS_STARTUP_FN\<close> after one pass of the loop on the \<^verbatim>\<open>s_cpu_inited\<close> flags, both
  written by the first core itself; \<^verbatim>\<open>s_cpu_up[1]\<close> is still false, and the result is
  the same whatever the second core would have done.
\<close>

theorem fused_off_start:
  assumes "efuse_dis_app_cpu s"
  shows "start_other_core sched fuel s =
           Some (s\<lparr>s_cpu_inited := (s_cpu_inited s)[1 := True], appcpu_clkgate_en := False\<rparr>)
    \<and> (\<exists>s'. call_start_cpu0 sched (Suc fuel) s = Some s'
          \<and> last (boot_calls s') = SYS_STARTUP_FN
          \<and> s_cpu_up s' = [True, False]
          \<and> s_cpu_inited s' = [True, True]
          \<and> elapsed_us s' = elapsed_us s + 100)
    \<and> call_start_cpu0 sched (Suc fuel) s = call_start_cpu0 (\<lambda>t. 0) 1 s"
  using assms by (simp add: boot_defs Let_def)

theorem fused_off_start_witness:
  "efuse_dis_app_cpu (chip True (OTHER_RESET 1))
   \<and> (\<exists>s'. call_start_cpu0 (\<lambda>t. 2) 1 (chip True (OTHER_RESET 1)) = Some s'
          \<and> last (boot_calls s') = SYS_STARTUP_FN
          \<and> s_cpu_up s' = [True, False]
          \<and> s_cpu_inited s' = [True, True]
          \<and> elapsed_us s' = 100)"
proof -
  have f: "efuse_dis_app_cpu (chip True (OTHER_RESET 1))"
    by (simp add: chip_def)
  have "\<exists>s'. call_start_cpu0 (\<lambda>t. 2) (Suc 0) (chip True (OTHER_RESET 1)) = Some s'
          \<and> last (boot_calls s') = SYS_STARTUP_FN
          \<and> s_cpu_up s' = [True, False]
          \<and> s_cpu_inited s' = [True, True]
          \<and> elapsed_us s' = elapsed_us (chip True (OTHER_RESET 1)) + 100"
    using fused_off_start [OF f, of "\<lambda>t. 2" 0] by (rule conjunct1 [OF conjunct2])
  moreover have "elapsed_us (chip True (OTHER_RESET 1)) = 0"
    by (simp add: chip_def)
  ultimately show ?thesis using f by simp
qed

lemma called_mem:
  "bss (called cs s) = bss s \<and> rtc_bss (called cs s) = rtc_bss s
   \<and> reset_reason (called cs s) = reset_reason s"
  by (simp add: called_def)

lemma clear_bss_mem:
  "bss (clear_bss s) = replicate (length (bss s)) 0 \<and> rtc_bss (clear_bss s) = rtc_bss s"
  by (simp add: clear_bss_def)

lemma clear_rtc_bss_mem:
  "bss (clear_rtc_bss s) = bss s \<and> rtc_bss (clear_rtc_bss s) = replicate (length (rtc_bss s)) 0"
  by (simp add: clear_rtc_bss_def)

lemma cpu_hal_delay_us_mem:
  "bss (cpu_hal_delay_us sched us s) = bss s \<and> rtc_bss (cpu_hal_delay_us sched us s) = rtc_bss s"
  by (simp add: cpu_hal_delay_us_def call_start_cpu1_writes_def Let_def)

lemma wait_cpus_up_mem:
  "wait_cpus_up sched fuel s = Some s' \<Longrightarrow> bss s' = bss s \<and> rtc_bss s' = rtc_bss s"
  by (induction fuel arbitrary: s) (auto simp: Let_def cpu_hal_delay_us_mem split: if_splits)

lemma wait_cpus_inited_mem:
  "wait_cpus_inited sched fuel s = Some s' \<Longrightarrow> bss s' = bss s \<and> rtc_bss s' = rtc_bss s"
  by (induction fuel arbitrary: s) (auto simp: Let_def cpu_hal_delay_us_mem split: if_splits)

lemma start_other_core_mem:
  "start_other_core sched fuel s = Some s' \<Longrightarrow> bss s' = bss s \<and> rtc_bss s' = rtc_bss s"
  by (auto simp: start_other_core_def Let_def called_def dest!: wait_cpus_up_mem split: if_splits)

text \<open>
  Claim C9: when \<^verbatim>\<open>call_start_cpu0\<close> hands over, the RTC bss region holds what it held at
  entry if the reset reason of the first core is \<^verbatim>\<open>DEEPSLEEP_RESET\<close>, and zeros
  otherwise; the bss region holds zeros whatever the reset reason.
\<close>

theorem rtc_bss_kept_on_deep_sleep:
  assumes "call_start_cpu0 sched fuel s = Some s'"
  shows "rtc_bss s' = (if reset_reason s 0 = DEEPSLEEP_RESET then rtc_bss s
                        else replicate (length (rtc_bss s)) 0)
     \<and> bss s' = replicate (length (bss s)) 0"
  using assms unfolding call_start_cpu0_def Let_def
  by (auto split: option.splits dest!: start_other_core_mem wait_cpus_inited_mem
      simp: called_mem clear_bss_mem clear_rtc_bss_mem if_distrib [of bss] if_distrib [of rtc_bss])

theorem rtc_bss_kept_on_deep_sleep_witness:
  "call_start_cpu0 (\<lambda>t. 0) 1 (chip True DEEPSLEEP_RESET) =
     Some (the (call_start_cpu0 (\<lambda>t. 0) 1 (chip True DEEPSLEEP_RESET)))
   \<and> rtc_bss (the (call_start_cpu0 (\<lambda>t. 0) 1 (chip True DEEPSLEEP_RESET))) = [7, 8]
   \<and> bss (the (call_start_cpu0 (\<lambda>t. 0) 1 (chip True DEEPSLEEP_RESET))) = [0, 0, 0]
   \<and> call_start_cpu0 (\<lambda>t. 0) 1 (chip True (OTHER_RESET 1)) =
     Some (the (call_start_cpu0 (\<lambda>t. 0) 1 (chip True (OTHER_RESET 1))))
   \<and> rtc_bss (the (call_start_cpu0 (\<lambda>t. 0) 1 (chip True (OTHER_RESET 1)))) = [0, 0]
   \<and> bss (the (call_start_cpu0 (\<lambda>t. 0) 1 (chip True (OTHER_RESET 1)))) = [0, 0, 0]"
proof -
  have d: "call_start_cpu0 (\<lambda>t. 0) 1 (chip True DEEPSLEEP_RESET) =
     Some (the (call_start_cpu0 (\<lambda>t. 0) 1 (chip True DEEPSLEEP_RESET)))"
    by (simp add: boot_defs chip_def Let_def)
  have p: "call_start_cpu0 (\<lambda>t. 0) 1 (chip True (OTHER_RESET 1)) =
     Some (the (call_start_cpu0 (\<lambda>t. 0) 1 (chip True (OTHER_RESET 1))))"
    by (simp add: boot_defs chip_def Let_def)
  from rtc_bss_kept_on_deep_sleep [OF d] rtc_bss_kept_on_deep_sleep [OF p] d p
  show ?thesis
    by (simp add: chip_def numeral_2_eq_2 numeral_3_eq_3)
qed

text \<open>
  The start-up with both cores, on a chip whose second core sets its up flag after 200
  microseconds and its initialised flag after 300: the first core hands over after four
  polling passes. With a second core that never comes up, no amount of polling ends the
  first loop.
\<close>

lemma two_core_start_example:
  "(case call_start_cpu0 (\<lambda>t. if 300 \<le> t then 2 else if 200 \<le> t then 1 else 0)
           (Suc (Suc (Suc 0))) (chip False (OTHER_RESET 1)) of
      None \<Rightarrow> False
    | Some s' \<Rightarrow>
        s_cpu_up s' = [True, True] \<and> s_cpu_inited s' = [True, True]
        \<and> elapsed_us s' = 400 \<and> last (boot_calls s') = SYS_STARTUP_FN)"
  by (simp add: boot_defs chip_def Let_def call_start_cpu1_writes_def)

lemma wait_cpus_up_never:
  assumes "\<not> all_cores (s_cpu_up s)"
  shows "wait_cpus_up (\<lambda>t. 0) fuel s = None"
  using assms
proof (induction fuel arbitrary: s)
  case 0
  then show ?case by simp
next
  case (Suc fuel)
  have same: "s_cpu_up (cpu_hal_delay_us (\<lambda>t. 0) 100 s) = s_cpu_up s"
    by (simp add: cpu_hal_delay_us_def call_start_cpu1_writes_def Let_def)
  with Suc show ?case by (simp add: Let_def)
qed

end
